theory Spec2Isabelle
  imports Main "HOL-Library.AList" "HOL-Library.Sublist"
begin

section \<open>Python values used by \<open>lisa/sut_orchestrator/azure/tools.py\<close>\<close>

text \<open>
  Strings are lists of characters; a character stands for a code point below 256.
  Every exception the modelled methods can raise is a constructor of \<open>error\<close>, and a
  method that can raise returns \<open>error + 'a\<close> with \<open>Inl\<close> for the raised exception.
\<close>

datatype error =
    AssertionError string
  | ValueError
  | IndexError
  | LisaException string
  | UnsupportedDistroException string
  | UnboundLocalError

text \<open>\<open>ExecutableResult\<close>: what a remote command execution gives back.\<close>

record exec_result =
  exit_code :: int
  stdout :: string
  stderr :: string

text \<open>
  A Python \<open>Dict[str, str]\<close> is an association list with unique keys in insertion order;
  \<open>d[k] = v\<close> is \<open>AList.update k v d\<close> (an existing key keeps its place, a new
  key goes to the end), \<open>len(d)\<close> is \<open>length d\<close>.
\<close>

type_synonym dict = "(string \<times> string) list"

definition dict_get :: "dict \<Rightarrow> string \<Rightarrow> string \<Rightarrow> string" where
  "dict_get d k dflt = (case map_of d k of None \<Rightarrow> dflt | Some v \<Rightarrow> v)"

abbreviation NUL :: char where
  "NUL \<equiv> CHR 0x00"

abbreviation LF :: char where
  "LF \<equiv> CHR 0x0A"

abbreviation CR :: char where
  "CR \<equiv> CHR 0x0D"

text \<open>\<open>str(n)\<close> and the f-string rendering \<open>{n}\<close> of an integer.\<close>

fun str_nat :: "nat \<Rightarrow> string" where
  "str_nat n =
     (if n < 10 then [''0123456789'' ! n]
      else str_nat (n div 10) @ [''0123456789'' ! (n mod 10)])"

declare str_nat.simps [simp del]

definition str_int :: "int \<Rightarrow> string" where
  "str_int i = (if i < 0 then CHR ''-'' # str_nat (nat (- i)) else str_nat (nat i))"

text \<open>\<open>s.split(sep)\<close> for a one-character separator: empty fields are kept.\<close>

fun split_str :: "string \<Rightarrow> char \<Rightarrow> string list" where
  "split_str [] sep = [[]]"
| "split_str (c # cs) sep =
     (if c = sep then [] # split_str cs sep
      else (case split_str cs sep of
              [] \<Rightarrow> [[c]]
            | w # ws \<Rightarrow> (c # w) # ws))"

section \<open>The remote execution context\<close>

text \<open>
  The classes of \<open>lisa.operating_system\<close> that the file tests with \<open>isinstance\<close>.
  \<open>OtherOs\<close> is an operating system that is an instance of none of them.
\<close>

datatype os_class = CoreOs | BSD | Debian | Redhat | CBLMariner | OtherOs

text \<open>
  Every call that leaves the file for the node is an event; the trace is the list of the
  events so far, oldest first.
\<close>

datatype event =
    ToolRun string string bool
  | NodeExecute string bool
  | CommandExists string
  | CatRead string bool
  | UnameHardwarePlatform
  | WgetGet string string "string option" bool
  | InstallPackages string
  | GccCompile string string string
  | CheckExists string

type_synonym trace = "event list"

text \<open>
  Modelled from the spec: the remote execution context and the tools behind it
  (\<open>Tool.run\<close>, \<open>Node.execute\<close>, \<open>Tool.command_exists\<close>, \<open>Tool._check_exists\<close>,
  \<open>Cat.read\<close>, \<open>Uname\<close>, \<open>Wget.get\<close>, \<open>Gcc.compile\<close>, the package manager and the
  platform profile) are not under src/. Section 6 of the spec gives the primitive
  \<open>execute(commandLine, elevated, ...) -> {exitCode, stdout, stderr}\<close> and
  \<open>fileRead(path, elevated)\<close>. Each one is a field of the node; its answer may depend
  on everything executed before, so it takes the trace. \<open>os_version\<close> is the profile's
  version, ordered and comparable, as (major, minor, patch).
\<close>

record node =
  os :: os_class
  os_version :: "nat \<times> nat \<times> nat"
  working_path :: string
  tool_run :: "trace \<Rightarrow> string \<Rightarrow> string \<Rightarrow> bool \<Rightarrow> exec_result"
  execute :: "trace \<Rightarrow> string \<Rightarrow> bool \<Rightarrow> exec_result"
  command_exists :: "trace \<Rightarrow> string \<Rightarrow> bool \<times> bool"
  cat_read :: "trace \<Rightarrow> string \<Rightarrow> bool \<Rightarrow> error + string"
  uname_hardware_platform :: "trace \<Rightarrow> error + string"
  wget_get :: "trace \<Rightarrow> string \<Rightarrow> string \<Rightarrow> string option \<Rightarrow> bool \<Rightarrow> error + string"
  install_packages :: "trace \<Rightarrow> string \<Rightarrow> error + unit"
  gcc_compile :: "trace \<Rightarrow> string \<Rightarrow> string \<Rightarrow> string \<Rightarrow> error + unit"
  check_exists :: "trace \<Rightarrow> string \<Rightarrow> error + bool"

section \<open>\<open>KvpClientFreeBSD\<close>\<close>

definition KVP_POOL_LOCATION :: string where
  "KVP_POOL_LOCATION = ''/var/db/hyperv/pool''"

text \<open>
  The pairing loop \<open>for i in range(0, len(content_split), 2)\<close> of
  \<open>KvpClientFreeBSD.get_pool_records\<close>, started at index \<open>i\<close>. The right-hand side
  \<open>content_split[i + 1]\<close> is read first and raises \<open>IndexError\<close> out of range.
\<close>

function pool_pairs :: "string list \<Rightarrow> nat \<Rightarrow> dict \<Rightarrow> error + dict" where
  "pool_pairs content_split i records =
     (if i < length content_split then
        (if i + 1 < length content_split
         then pool_pairs content_split (i + 2)
                (AList.update (content_split ! i) (content_split ! (i + 1)) records)
         else Inl IndexError)
      else Inr records)"
  by pat_completeness auto
termination
  by (relation "measure (\<lambda>(content_split, i, records). length content_split - i)") auto

declare pool_pairs.simps [simp del]

definition kvp_pool_file :: "int \<Rightarrow> string" where
  "kvp_pool_file pool_id = KVP_POOL_LOCATION @ ''/.kvp_pool_'' @ str_int pool_id"

definition KvpClientFreeBSD_get_pool_records ::
  "node \<Rightarrow> trace \<Rightarrow> int \<Rightarrow> bool \<Rightarrow> (error + dict) \<times> trace" where
  "KvpClientFreeBSD_get_pool_records N t pool_id force_run =
     (let t1 = t @ [CatRead (kvp_pool_file pool_id) True] in
      case cat_read N t (kvp_pool_file pool_id) True of
        Inl e \<Rightarrow> (Inl e, t1)
      | Inr content \<Rightarrow>
          (let content_split = split_str content NUL;
               content_split = filter (\<lambda>item. item \<noteq> []) content_split
           in (pool_pairs content_split 0 [], t1)))"

text \<open>
  \<open>KvpClient.get_host_name\<close>, inherited by \<open>KvpClientFreeBSD\<close>: \<open>self.get_pool_records\<close>
  is the method of the instance's class, so it is an argument here.
\<close>

definition get_host_name ::
  "(node \<Rightarrow> trace \<Rightarrow> int \<Rightarrow> bool \<Rightarrow> (error + dict) \<times> trace)
     \<Rightarrow> node \<Rightarrow> trace \<Rightarrow> (error + string) \<times> trace" where
  "get_host_name self_get_pool_records N t =
     (case self_get_pool_records N t 3 False of
        (Inl e, t1) \<Rightarrow> (Inl e, t1)
      | (Inr items, t1) \<Rightarrow> (Inr (dict_get items ''HostName'' ''''), t1))"

definition KvpClientFreeBSD_get_host_name :: "node \<Rightarrow> trace \<Rightarrow> (error + string) \<times> trace" where
  "KvpClientFreeBSD_get_host_name = get_host_name KvpClientFreeBSD_get_pool_records"

text \<open>A node whose files are those of \<open>files\<close> and that answers nothing else usefully.\<close>

definition file_node :: "(string \<Rightarrow> string option) \<Rightarrow> node" where
  "file_node files =
     \<lparr> os = BSD, os_version = (14, 0, 0), working_path = ''/tmp'',
       tool_run = (\<lambda>t c p f. \<lparr>exit_code = 127, stdout = [], stderr = []\<rparr>),
       execute = (\<lambda>t c s. \<lparr>exit_code = 127, stdout = [], stderr = []\<rparr>),
       command_exists = (\<lambda>t c. (False, False)),
       cat_read = (\<lambda>t p s. case files p of None \<Rightarrow> Inl (LisaException ''Error on read file'')
                                         | Some c \<Rightarrow> Inr c),
       uname_hardware_platform = (\<lambda>t. Inr ''amd64''),
       wget_get = (\<lambda>t u p f x. Inl (LisaException ''wget'')),
       install_packages = (\<lambda>t p. Inl (LisaException ''packages'')),
       gcc_compile = (\<lambda>t f out a. Inl (LisaException ''gcc'')),
       check_exists = (\<lambda>t c. Inr True) \<rparr>"

section \<open>Patterns and helpers of \<open>lisa.util\<close>\<close>

text \<open>
  Modelled from the spec: \<open>find_patterns_in_lines\<close> and \<open>get_matched_str\<close> of
  \<open>lisa.util\<close> are not under src/; the spec has the key/value dump parsed line by line
  with lines that do not match skipped. Both are Python's \<open>pattern.findall\<close> on the
  text, and a compiled pattern of the source is modelled by its \<open>findall\<close>. All three
  patterns below are compiled with \<open>re.M\<close>, where \<open>^\<close> and \<open>$\<close> match at the
  line feeds and \<open>.\<close> matches anything but a line feed, so no match crosses a line.
\<close>

definition lines_of :: "string \<Rightarrow> string list" where
  "lines_of s = split_str s LF"

text \<open>
  \<open>(?P<key>.*); Value: (?P<value>.*)\r?$\<close> on the rest of a line: the greedy key
  ends at the last \<open>; Value: \<close> of the line, and the greedy value takes what follows up
  to the end of the line (a trailing carriage return included, \<open>\r?\<close> then matching
  nothing).
\<close>

fun rsplit_value :: "string \<Rightarrow> (string \<times> string) option" where
  "rsplit_value [] = None"
| "rsplit_value (c # cs) =
     (case rsplit_value cs of
        Some (k, v) \<Rightarrow> Some (c # k, v)
      | None \<Rightarrow> if prefix ''; Value: '' (c # cs) then Some ([], drop 9 (c # cs)) else None)"

text \<open>\<open>_key_value_pattern = ^Key: (?P<key>.*); Value: (?P<value>.*)\r?$\<close> on one line.\<close>

definition key_value_match :: "string \<Rightarrow> (string \<times> string) option" where
  "key_value_match line =
     (if prefix ''Key: '' line then rsplit_value (drop 5 line) else None)"

definition key_value_findall :: "string \<Rightarrow> (string \<times> string) list" where
  "key_value_findall content = List.map_filter key_value_match (lines_of content)"

definition is_digit :: "char \<Rightarrow> bool" where
  "is_digit c = (c \<in> set ''0123456789'')"

text \<open>
  \<open>_count_record_pattern = Num records is (\d+)\r?$\<close>, first anchored at the start of
  \<open>s\<close>, then searched from the left in one line.
\<close>

definition count_record_match_here :: "string \<Rightarrow> string option" where
  "count_record_match_here s =
     (if prefix ''Num records is '' s then
        (let r = drop 15 s; ds = takeWhile is_digit r; rest = dropWhile is_digit r
         in if ds \<noteq> [] \<and> (rest = [] \<or> rest = [CR]) then Some ds else None)
      else None)"

fun count_record_search :: "string \<Rightarrow> string option" where
  "count_record_search [] = None"
| "count_record_search (c # cs) =
     (case count_record_match_here (c # cs) of
        Some ds \<Rightarrow> Some ds
      | None \<Rightarrow> count_record_search cs)"

definition count_record_findall :: "string \<Rightarrow> string list" where
  "count_record_findall content = List.map_filter count_record_search (lines_of content)"

definition get_matched_str :: "string \<Rightarrow> (string \<Rightarrow> string list) \<Rightarrow> string" where
  "get_matched_str content pattern_findall =
     (if content \<noteq> [] then
        (case pattern_findall content of [] \<Rightarrow> [] | matched # _ \<Rightarrow> matched)
      else [])"

text \<open>
  \<open>int(s)\<close> for the strings it is given here, a group \<open>(\d+)\<close> or the empty string;
  the empty string raises \<open>ValueError\<close>.
\<close>

definition digit_val :: "char \<Rightarrow> nat" where
  "digit_val c = of_char c - 48"

definition int_of_str :: "string \<Rightarrow> error + int" where
  "int_of_str s =
     (if s \<noteq> [] \<and> list_all is_digit s
      then Inr (int (foldl (\<lambda>a c. 10 * a + digit_val c) 0 s))
      else Inl ValueError)"

section \<open>\<open>KvpClient\<close>\<close>

text \<open>
  \<open>str(path / name)\<close> for a pure POSIX path, given as its string, and a relative
  name without separators: the current directory \<open>.\<close> vanishes, and a root
  (\<open>/\<close> or \<open>//\<close>) already ends with the separator.
\<close>

definition joinpath :: "string \<Rightarrow> string \<Rightarrow> string" where
  "joinpath path name =
     (if path = [] \<or> path = ''.'' then name
      else if last path = CHR ''/'' then path @ name
      else path @ ''/'' @ name)"

definition command_name :: string where
  "command_name = ''kvp_client''"

text \<open>\<open>command\<close>: \<open>str(self.node.working_path / self._command_name)\<close>.\<close>

definition KvpClient_command :: "node \<Rightarrow> string" where
  "KvpClient_command N = joinpath (working_path N) command_name"

definition KvpClient_get_pool_records ::
  "node \<Rightarrow> trace \<Rightarrow> int \<Rightarrow> bool \<Rightarrow> (error + dict) \<times> trace" where
  "KvpClient_get_pool_records N t pool_id force_run =
     (let result = tool_run N t (KvpClient_command N) (str_int pool_id) force_run;
          t1 = t @ [ToolRun (KvpClient_command N) (str_int pool_id) force_run]
      in if exit_code result \<notin> {0, 4}
         then (Inl (AssertionError ''failed to get pool''), t1)
         else
           (let matched_lines = key_value_findall (stdout result);
                records = foldl (\<lambda>d item. AList.update (fst item) (snd item) d) [] matched_lines
            in case int_of_str (get_matched_str (stdout result) count_record_findall) of
                 Inl e \<Rightarrow> (Inl e, t1)
               | Inr count \<Rightarrow>
                   if int (length records) \<noteq> count
                   then (Inl (AssertionError ''result count is not the same as stats''), t1)
                   else (Inr records, t1)))"

definition KvpClient_get_host_name :: "node \<Rightarrow> trace \<Rightarrow> (error + string) \<times> trace" where
  "KvpClient_get_host_name = get_host_name KvpClient_get_pool_records"

text \<open>A node on which every \<open>Tool.run\<close> gives the result \<open>r\<close>.\<close>

definition run_node :: "exec_result \<Rightarrow> node" where
  "run_node r = (file_node Map.empty)\<lparr> os := OtherOs, tool_run := (\<lambda>t c p f. r) \<rparr>"

section \<open>The same record data under both variants\<close>






section \<open>\<open>Waagent\<close>\<close>

abbreviation DQ :: char where
  "DQ \<equiv> CHR 0x22"

abbreviation SQ :: char where
  "SQ \<equiv> CHR 0x27"

text \<open>
  \<open>\s\<close> of a Python \<open>str\<close> pattern, on the code points below 256: tab to carriage
  return, the four separators 0x1C to 0x1F, the space, NEL and the no-break space.
\<close>

definition is_space :: "char \<Rightarrow> bool" where
  "is_space c =
     (let n = (of_char c :: nat)
      in (9 \<le> n \<and> n \<le> 13) \<or> (28 \<le> n \<and> n \<le> 32) \<or> n = 133 \<or> n = 160)"

text \<open>
  \<open>__version_pattern = (?<=\-)([^\s]+)\<close>: a match starts at a character that is not
  white space and follows a \<open>-\<close>, and takes the whole run of characters that are not
  white space; the search goes on after the match. \<open>prev\<close> is the character before
  the text, if any.
\<close>

function version_scan :: "char option \<Rightarrow> string \<Rightarrow> string list" where
  "version_scan prev [] = []"
| "version_scan prev (c # cs) =
     (if prev = Some (CHR ''-'') \<and> \<not> is_space c
      then takeWhile (\<lambda>x. \<not> is_space x) (c # cs)
             # version_scan (Some c) (dropWhile (\<lambda>x. \<not> is_space x) cs)
      else version_scan (Some c) cs)"
  by pat_completeness auto
termination
  by (relation "measure (\<lambda>(prev, s). length s)")
     (auto simp: length_dropWhile_le le_imp_less_Suc)

definition version_findall :: "string \<Rightarrow> string list" where
  "version_findall content = version_scan None content"

text \<open>
  The mutable fields of a \<open>Waagent\<close> instance, with the trace of the node it runs on.
\<close>

record waagent =
  command :: string
  python_cmd :: "string option"
  python_use_sudo :: "bool option"
  distro_version :: "string option"
  waagent_conf_path :: "string option"
  events :: trace

definition python_candidates :: "string list" where
  "python_candidates =
     [''python3'', ''python2'', ''/usr/libexec/platform-python'',
      ''/usr/share/oem/python/bin/python3'']"

definition Waagent_initialize :: "node \<Rightarrow> trace \<Rightarrow> waagent" where
  "Waagent_initialize N t =
     \<lparr> command = (if os N = CoreOs
                  then ''/usr/share/oem/python/bin/python /usr/share/oem/bin/waagent''
                  else ''waagent''),
       python_cmd = None, python_use_sudo = None, distro_version = None,
       waagent_conf_path = None, events = t \<rparr>"

text \<open>\<open>self.run(parameters)\<close>: \<open>Tool.run\<close> on the current \<open>command\<close>.\<close>

definition Waagent_run :: "node \<Rightarrow> waagent \<Rightarrow> string \<Rightarrow> exec_result \<times> waagent" where
  "Waagent_run N w parameters =
     (tool_run N (events w) (command w) parameters False,
      w\<lparr>events := events w @ [ToolRun (command w) parameters False]\<rparr>)"

definition Waagent_get_version :: "node \<Rightarrow> waagent \<Rightarrow> (error + string) \<times> waagent" where
  "Waagent_get_version N w =
     (let (result, w) = Waagent_run N w ''-version'';
          (result, w) =
            (if exit_code result \<noteq> 0
             then Waagent_run N (w\<lparr>command := ''/usr/sbin/waagent''\<rparr>) ''-version''
             else (result, w));
          (result, w) =
            (if exit_code result \<noteq> 0
             then Waagent_run N (w\<lparr>command := ''python3 /usr/sbin/waagent''\<rparr>) ''-version''
             else (result, w))
      in (Inr (get_matched_str (stdout result) version_findall), w))"

text \<open>
  The loop of \<open>get_python_cmd\<close> with its \<open>break\<close>. \<open>bound\<close> holds the loop variables
  \<open>python_cmd\<close> and \<open>use_sudo\<close> once an iteration has bound them.
\<close>

fun python_loop ::
  "node \<Rightarrow> string list \<Rightarrow> (string \<times> bool) option \<Rightarrow> trace \<Rightarrow> (string \<times> bool) option \<times> trace" where
  "python_loop N [] bound t = (bound, t)"
| "python_loop N (candidate # rest) bound t =
     (let (python_exists, use_sudo) = command_exists N t candidate;
          t1 = t @ [CommandExists candidate]
      in if python_exists then (Some (candidate, use_sudo), t1)
         else python_loop N rest (Some (candidate, use_sudo)) t1)"

definition Waagent_get_python_cmd ::
  "node \<Rightarrow> waagent \<Rightarrow> (error + string \<times> bool) \<times> waagent" where
  "Waagent_get_python_cmd N w =
     (case (python_cmd w, python_use_sudo w) of
        (Some p, Some s) \<Rightarrow> (Inr (p, s), w)
      | _ \<Rightarrow>
          (case python_loop N python_candidates None (events w) of
             (None, t1) \<Rightarrow> (Inl UnboundLocalError, w\<lparr>events := t1\<rparr>)
           | (Some (p, s), t1) \<Rightarrow>
               (Inr (p, s), w\<lparr>python_cmd := Some p, python_use_sudo := Some s, events := t1\<rparr>)))"

definition conf_path_query :: "string \<Rightarrow> string" where
  "conf_path_query python =
     python @ '' -c '' @ [DQ] @ ''from azurelinuxagent.common.osutil import get_osutil;''
       @ ''print(get_osutil().agent_conf_file_path)'' @ [DQ]"

definition Waagent_get_waagent_conf_path ::
  "node \<Rightarrow> waagent \<Rightarrow> (error + string) \<times> waagent" where
  "Waagent_get_waagent_conf_path N w =
     (case waagent_conf_path w of
        Some path \<Rightarrow> (Inr path, w)
      | None \<Rightarrow>
          (case Waagent_get_python_cmd N w of
             (Inl e, w) \<Rightarrow> (Inl e, w)
           | (Inr (python, use_sudo), w) \<Rightarrow>
               (let result = execute N (events w) (conf_path_query python) use_sudo;
                    w = w\<lparr>events := events w @ [NodeExecute (conf_path_query python) use_sudo]\<rparr>;
                    waagent_path =
                      (if exit_code result = 0 then stdout result
                       else if os N = CoreOs then ''/usr/share/oem/waagent.conf''
                       else if os N = BSD then ''/usr/local/etc/waagent.conf''
                       else ''/etc/waagent.conf'')
                in (Inr waagent_path, w\<lparr>waagent_conf_path := Some waagent_path\<rparr>))))"

definition distro_query :: "string \<Rightarrow> string" where
  "distro_query python =
     python @ '' -c '' @ [DQ] @ ''from azurelinuxagent.common.version import get_distro;''
       @ ''print('' @ [SQ] @ ''-'' @ [SQ] @ ''.join(get_distro()[0:3]))'' @ [DQ]"

definition legacy_distro_query :: "string \<Rightarrow> string" where
  "legacy_distro_query python =
     python @ '' -c '' @ [DQ] @ ''import platform;''
       @ ''print('' @ [SQ] @ ''-'' @ [SQ] @ ''.join(platform.linux_distribution(0)))'' @ [DQ]"

text \<open>\<open>s.strip(chars)\<close> and \<open>s.lower()\<close> on the code points below 256.\<close>

definition strip_chars :: "string \<Rightarrow> string \<Rightarrow> string" where
  "strip_chars s chars =
     rev (dropWhile (\<lambda>c. c \<in> set chars) (rev (dropWhile (\<lambda>c. c \<in> set chars) s)))"

definition lower_char :: "char \<Rightarrow> char" where
  "lower_char c =
     (let n = (of_char c :: nat)
      in if (65 \<le> n \<and> n \<le> 90) \<or> (192 \<le> n \<and> n \<le> 222 \<and> n \<noteq> 215)
         then char_of (n + 32) else c)"

definition lower :: "string \<Rightarrow> string" where
  "lower s = map lower_char s"

definition Waagent_get_distro_version ::
  "node \<Rightarrow> waagent \<Rightarrow> (error + string) \<times> waagent" where
  "Waagent_get_distro_version N w =
     (case distro_version w of
        Some version \<Rightarrow> (Inr version, w)
      | None \<Rightarrow>
          (case Waagent_get_python_cmd N w of
             (Inl e, w) \<Rightarrow> (Inl e, w)
           | (Inr (python, use_sudo), w) \<Rightarrow>
               (let result = execute N (events w) (distro_query python) use_sudo;
                    w = w\<lparr>events := events w @ [NodeExecute (distro_query python) use_sudo]\<rparr>;
                    (version, w) =
                      (if exit_code result = 0 then (stdout result, w)
                       else
                         (let result = execute N (events w) (legacy_distro_query python) use_sudo;
                              w = w\<lparr>events := events w
                                     @ [NodeExecute (legacy_distro_query python) use_sudo]\<rparr>
                          in if exit_code result = 0
                             then (lower (strip_chars (strip_chars (stdout result) [DQ]) '' ''), w)
                             else (''Unknown'', w)))
                in (Inr version, w\<lparr>distro_version := Some version\<rparr>))))"

text \<open>The public calls of a \<open>Waagent\<close> that touch the cached fields, run in sequence.\<close>

datatype waagent_call = GetVersion | GetPythonCmd | GetWaagentConfPath | GetDistroVersion

fun do_call :: "node \<Rightarrow> waagent_call \<Rightarrow> waagent \<Rightarrow> waagent" where
  "do_call N GetVersion w = snd (Waagent_get_version N w)"
| "do_call N GetPythonCmd w = snd (Waagent_get_python_cmd N w)"
| "do_call N GetWaagentConfPath w = snd (Waagent_get_waagent_conf_path N w)"
| "do_call N GetDistroVersion w = snd (Waagent_get_distro_version N w)"

definition do_calls :: "node \<Rightarrow> waagent_call list \<Rightarrow> waagent \<Rightarrow> waagent" where
  "do_calls N calls w = fold (do_call N) calls w"

text \<open>
  Example nodes. On \<open>fallback_node\<close> the command \<open>waagent\<close> is not found, the one
  installed under \<open>/usr/sbin\<close> answers, \<open>python2\<close> is the first interpreter present,
  the first remote query after the probes fails and every later one answers. On
  \<open>failing_node\<close> every command fails. \<open>coreos_node\<close> is a CoreOS node on which every
  command answers.
\<close>

definition fallback_node :: node where
  "fallback_node =
     (file_node Map.empty)
       \<lparr> os := OtherOs,
         tool_run := (\<lambda>t c p f.
           if c = ''/usr/sbin/waagent''
           then \<lparr>exit_code = 0, stdout = ''WALinuxAgent-2.2.45 running on ubuntu 18.04'',
                 stderr = []\<rparr>
           else \<lparr>exit_code = 127, stdout = [], stderr = ''command not found''\<rparr>),
         execute := (\<lambda>t c s.
           if length t < 3
           then \<lparr>exit_code = 1, stdout = [], stderr = ''ImportError''\<rparr>
           else \<lparr>exit_code = 0, stdout = [DQ] @ '' Ubuntu-18.04-Bionic '' @ [DQ],
                 stderr = []\<rparr>),
         command_exists := (\<lambda>t c. (c = ''python2'', True)) \<rparr>"

definition failing_node :: node where
  "failing_node =
     (file_node Map.empty)
       \<lparr> os := OtherOs,
         tool_run := (\<lambda>t c p f. \<lparr>exit_code = 127, stdout = [], stderr = ''command not found''\<rparr>),
         execute := (\<lambda>t c s. \<lparr>exit_code = 1, stdout = [], stderr = ''ImportError''\<rparr>) \<rparr>"

definition coreos_node :: node where
  "coreos_node =
     (file_node Map.empty)
       \<lparr> os := CoreOs,
         tool_run := (\<lambda>t c p f.
           \<lparr>exit_code = 0, stdout = ''WALinuxAgent-2.2.45 running on flatcar'', stderr = []\<rparr>) \<rparr>"

section \<open>\<open>LisDriver\<close>\<close>

text \<open>
  The order of versions, on (major, minor, patch); pre-release tags are not modelled.
\<close>

definition version_less :: "nat \<times> nat \<times> nat \<Rightarrow> nat \<times> nat \<times> nat \<Rightarrow> bool" where
  "version_less a b =
     (case (a, b) of
        ((a1, a2, a3), (b1, b2, b3)) \<Rightarrow>
          a1 < b1 \<or> (a1 = b1 \<and> (a2 < b2 \<or> (a2 = b2 \<and> a3 < b3))))"

text \<open>
  The property \<open>can_install\<close>: \<open>isinstance(self.node.os, Redhat)\<close> and
  \<open>self.node.os.information.version < "7.8.0"\<close>, else the exception. The string is
  compared as the version 7.8.0. Nothing is run on the node, so the trace comes back as
  it was.
\<close>

definition LisDriver_can_install :: "node \<Rightarrow> trace \<Rightarrow> (error + bool) \<times> trace" where
  "LisDriver_can_install N t =
     (if os N = Redhat \<and> version_less (os_version N) (7, 8, 0)
      then (Inr True, t)
      else (Inl (UnsupportedDistroException
                   (''lis driver can'' @ [SQ] @ ''t be installed on this distro'')), t))"

section \<open>Installing \<open>KvpClient\<close>\<close>









definition versioned_node :: "os_class \<Rightarrow> nat \<times> nat \<times> nat \<Rightarrow> node" where
  "versioned_node os_cls v = (file_node Map.empty)\<lparr> os := os_cls, os_version := v \<rparr>"

section \<open>Properties of \<open>KvpClientFreeBSD\<close>\<close>

lemma pool_pairs_odd:
  "i \<le> length cs \<Longrightarrow> odd (length cs - i) \<Longrightarrow> pool_pairs cs i d = Inl IndexError"
proof (induction cs i d rule: pool_pairs.induct)
  case (1 cs i d)
  from "1.prems" have lt: "i < length cs"
    by (cases "i = length cs") auto
  show ?case
  proof (cases "i + 1 < length cs")
    case True
    with "1.prems" have "odd (length cs - (i + 2))" by auto
    with True lt "1.IH" show ?thesis
      by (subst pool_pairs.simps) simp
  next
    case False
    with lt show ?thesis
      by (subst pool_pairs.simps) simp
  qed
qed

text \<open>
  C9. \<open>KvpClientFreeBSD.get_pool_records\<close> is not total on arbitrary pool-file contents:
  whenever the content read from the pool file has an odd number of non-empty
  NUL-separated fields, the pairing loop reads \<open>content_split[i + 1]\<close> one past the end
  and the call raises \<open>IndexError\<close>; no dictionary is returned.
\<close>

theorem freebsd_odd_fields_index_error:
  assumes "cat_read N t (kvp_pool_file pool_id) True = Inr content"
    and "odd (length (filter (\<lambda>item. item \<noteq> []) (split_str content NUL)))"
  shows "fst (KvpClientFreeBSD_get_pool_records N t pool_id force_run) = Inl IndexError"
  using assms pool_pairs_odd [of 0 "filter (\<lambda>item. item \<noteq> []) (split_str content NUL)" "[]"]
  by (simp add: KvpClientFreeBSD_get_pool_records_def Let_def)

theorem freebsd_odd_fields_index_error_witness:
  "cat_read (file_node [''/var/db/hyperv/pool/.kvp_pool_3'' \<mapsto> ''dangling'' @ [NUL]]) []
      (kvp_pool_file 3) True = Inr (''dangling'' @ [NUL])
   \<and> odd (length (filter (\<lambda>item. item \<noteq> []) (split_str (''dangling'' @ [NUL]) NUL)))
   \<and> fst (KvpClientFreeBSD_get_pool_records
            (file_node [''/var/db/hyperv/pool/.kvp_pool_3'' \<mapsto> ''dangling'' @ [NUL]]) [] 3 False)
       = Inl IndexError"
proof -
  let ?N = "file_node [''/var/db/hyperv/pool/.kvp_pool_3'' \<mapsto> ''dangling'' @ [NUL]]"
  have p: "kvp_pool_file 3 = ''/var/db/hyperv/pool/.kvp_pool_3''"
    by (simp add: kvp_pool_file_def KVP_POOL_LOCATION_def str_int_def str_nat.simps)
  have r: "cat_read ?N [] (kvp_pool_file 3) True = Inr (''dangling'' @ [NUL])"
    by (simp add: p file_node_def)
  have o: "odd (length (filter (\<lambda>item. item \<noteq> []) (split_str (''dangling'' @ [NUL]) NUL)))"
    by simp
  from freebsd_odd_fields_index_error [OF r o, of False] r o show ?thesis
    by simp
qed

text \<open>
  C8. When the pool file of pool 3 holds the bytes \<open>HostName\<close>, NUL, \<open>example-host\<close>, NUL,
  \<open>KvpClientFreeBSD.get_pool_records(3)\<close> returns exactly the dictionary
  \<open>{"HostName": "example-host"}\<close>, and \<open>get_host_name\<close>, which reads pool 3 and looks
  up \<open>HostName\<close>, returns \<open>example-host\<close>.
\<close>

theorem freebsd_host_name_scenario:
  assumes "\<And>t. cat_read N t ''/var/db/hyperv/pool/.kvp_pool_3'' True
             = Inr (''HostName'' @ [NUL] @ ''example-host'' @ [NUL])"
  shows "fst (KvpClientFreeBSD_get_pool_records N t 3 force_run)
           = Inr [(''HostName'', ''example-host'')]
       \<and> fst (KvpClientFreeBSD_get_host_name N t') = Inr ''example-host''"
proof -
  have p: "kvp_pool_file 3 = ''/var/db/hyperv/pool/.kvp_pool_3''"
    by (simp add: kvp_pool_file_def KVP_POOL_LOCATION_def str_int_def str_nat.simps)
  have s: "filter (\<lambda>item. item \<noteq> [])
             (split_str (''HostName'' @ [NUL] @ ''example-host'' @ [NUL]) NUL)
           = [''HostName'', ''example-host'']"
    by simp
  have l: "pool_pairs [''HostName'', ''example-host''] 0 [] = Inr [(''HostName'', ''example-host'')]"
    by (simp add: pool_pairs.simps)
  have g: "\<And>u f. fst (KvpClientFreeBSD_get_pool_records N u 3 f)
             = Inr [(''HostName'', ''example-host'')]"
    by (simp add: KvpClientFreeBSD_get_pool_records_def Let_def p assms s l)
  have h: "fst (KvpClientFreeBSD_get_host_name N t') = Inr ''example-host''"
    using g [of t' False]
    by (cases "KvpClientFreeBSD_get_pool_records N t' 3 False")
       (simp add: KvpClientFreeBSD_get_host_name_def get_host_name_def dict_get_def)
  from g h show ?thesis by simp
qed

theorem freebsd_host_name_scenario_witness:
  "fst (KvpClientFreeBSD_get_pool_records
          (file_node [''/var/db/hyperv/pool/.kvp_pool_3''
                        \<mapsto> ''HostName'' @ [NUL] @ ''example-host'' @ [NUL]]) [] 3 False)
     = Inr [(''HostName'', ''example-host'')]
   \<and> fst (KvpClientFreeBSD_get_host_name
          (file_node [''/var/db/hyperv/pool/.kvp_pool_3''
                        \<mapsto> ''HostName'' @ [NUL] @ ''example-host'' @ [NUL]]) [])
     = Inr ''example-host''"
proof -
  let ?N = "file_node [''/var/db/hyperv/pool/.kvp_pool_3''
                         \<mapsto> ''HostName'' @ [NUL] @ ''example-host'' @ [NUL]]"
  have a: "\<And>t. cat_read ?N t ''/var/db/hyperv/pool/.kvp_pool_3'' True
             = Inr (''HostName'' @ [NUL] @ ''example-host'' @ [NUL])"
    by (simp add: file_node_def)
  show ?thesis
    by (rule freebsd_host_name_scenario [OF a])
qed

section \<open>Properties of \<open>KvpClient\<close> and of the two variants together\<close>



lemma dict_build_keys:
  "fst ` set (foldl (\<lambda>d item. AList.update (fst item) (snd item) d) d xs)
     = fst ` set d \<union> fst ` set xs"
  by (induction xs arbitrary: d) (auto simp: dom_update)

lemma dict_build_keys_distinct:
  "distinct (map fst d) \<Longrightarrow>
     distinct (map fst (foldl (\<lambda>d item. AList.update (fst item) (snd item) d) d xs))"
  by (induction xs arbitrary: d) (auto simp: distinct_update)

lemma dict_build_length:
  "length (foldl (\<lambda>d item. AList.update (fst item) (snd item) d) [] xs) = card (fst ` set xs)"
proof -
  let ?r = "foldl (\<lambda>d item. AList.update (fst item) (snd item) d) [] xs"
  have "distinct (map fst ?r)" by (rule dict_build_keys_distinct) simp
  then have "length ?r = card (set (map fst ?r))"
    using distinct_card [of "map fst ?r"] by simp
  also have "set (map fst ?r) = fst ` set xs"
    using dict_build_keys [of "[]" xs] by simp
  finally show ?thesis .
qed


lemma split_str_last: "sep \<notin> set w \<Longrightarrow> split_str w sep = [w]"
  by (induction w) (auto split: list.splits)




























text \<open>
  C10. \<open>KvpClient.get_pool_records\<close> returns a dictionary only when the exit code of the
  client is 0 or 4 and the number of distinct parsed keys equals the count of the
  \<open>Num records is N\<close> line of the same output. Any other exit code raises the assertion
  \<open>failed to get pool\<close>; an accepted exit code with a reported count that differs from
  the number of distinct parsed keys raises the assertion on the count.
\<close>

theorem kvp_get_pool_records_guards:
  assumes "result = tool_run N t (KvpClient_command N) (str_int pool_id) force_run"
  shows "(\<forall>records. fst (KvpClient_get_pool_records N t pool_id force_run) = Inr records \<longrightarrow>
            exit_code result \<in> {0, 4}
            \<and> length records = card (fst ` set (key_value_findall (stdout result)))
            \<and> int_of_str (get_matched_str (stdout result) count_record_findall)
                = Inr (int (length records)))
       \<and> (exit_code result \<notin> {0, 4} \<longrightarrow>
            fst (KvpClient_get_pool_records N t pool_id force_run)
              = Inl (AssertionError ''failed to get pool''))
       \<and> (\<forall>count. exit_code result \<in> {0, 4}
            \<and> int_of_str (get_matched_str (stdout result) count_record_findall) = Inr count
            \<and> int (card (fst ` set (key_value_findall (stdout result)))) \<noteq> count \<longrightarrow>
            fst (KvpClient_get_pool_records N t pool_id force_run)
              = Inl (AssertionError ''result count is not the same as stats''))"
proof -
  let ?call = "fst (KvpClient_get_pool_records N t pool_id force_run)"
  let ?parsed = "foldl (\<lambda>d item. AList.update (fst item) (snd item) d) []
                   (key_value_findall (stdout result))"
  let ?count = "int_of_str (get_matched_str (stdout result) count_record_findall)"
  have len: "length ?parsed = card (fst ` set (key_value_findall (stdout result)))"
    by (rule dict_build_length)
  have bad: "exit_code result \<notin> {0, 4} \<Longrightarrow> ?call = Inl (AssertionError ''failed to get pool'')"
    by (simp add: KvpClient_get_pool_records_def Let_def assms)
  have good: "exit_code result \<in> {0, 4} \<Longrightarrow>
      ?call = (case ?count of
                 Inl e \<Rightarrow> Inl e
               | Inr count \<Rightarrow>
                   if int (length ?parsed) \<noteq> count
                   then Inl (AssertionError ''result count is not the same as stats'')
                   else Inr ?parsed)"
    by (auto simp: KvpClient_get_pool_records_def Let_def assms split: sum.splits)
  have c1: "\<forall>records. ?call = Inr records \<longrightarrow>
            exit_code result \<in> {0, 4}
            \<and> length records = card (fst ` set (key_value_findall (stdout result)))
            \<and> ?count = Inr (int (length records))"
  proof (intro allI impI)
    fix records
    assume ok: "?call = Inr records"
    have e: "exit_code result \<in> {0, 4}"
    proof (rule ccontr)
      assume "exit_code result \<notin> {0, 4}"
      from bad [OF this] ok show False by simp
    qed
    from good [OF e] ok have "records = ?parsed \<and> ?count = Inr (int (length ?parsed))"
      by (auto split: sum.splits if_splits)
    with e len show "exit_code result \<in> {0, 4}
            \<and> length records = card (fst ` set (key_value_findall (stdout result)))
            \<and> ?count = Inr (int (length records))"
      by simp
  qed
  have c3: "\<forall>count. exit_code result \<in> {0, 4} \<and> ?count = Inr count
            \<and> int (card (fst ` set (key_value_findall (stdout result)))) \<noteq> count \<longrightarrow>
            ?call = Inl (AssertionError ''result count is not the same as stats'')"
    using good len by auto
  from c1 bad c3 show ?thesis by blast
qed

theorem kvp_get_pool_records_guards_witness:
  "fst (KvpClient_get_pool_records
          (run_node \<lparr>exit_code = 4,
                     stdout = ''Num records is 1'' @ [LF] @ ''Key: a; Value: b'',
                     stderr = []\<rparr>) [] 3 False)
     = Inr [(''a'', ''b'')]
   \<and> int_of_str (get_matched_str (''Num records is 1'' @ [LF] @ ''Key: a; Value: b'')
                   count_record_findall) = Inr 1
   \<and> fst (KvpClient_get_pool_records
          (run_node \<lparr>exit_code = 1,
                     stdout = ''Num records is 1'' @ [LF] @ ''Key: a; Value: b'',
                     stderr = []\<rparr>) [] 3 False)
     = Inl (AssertionError ''failed to get pool'')
   \<and> fst (KvpClient_get_pool_records
          (run_node \<lparr>exit_code = 0,
                     stdout = ''Num records is 2'' @ [LF] @ ''Key: a; Value: b'' @ [LF]
                                @ ''Key: a; Value: c'',
                     stderr = []\<rparr>) [] 3 False)
     = Inl (AssertionError ''result count is not the same as stats'')"
proof -
  let ?o1 = "''Num records is 1'' @ [LF] @ ''Key: a; Value: b''"
  let ?o3 = "''Num records is 2'' @ [LF] @ ''Key: a; Value: b'' @ [LF] @ ''Key: a; Value: c''"
  let ?r1 = "\<lparr>exit_code = 4, stdout = ?o1, stderr = []\<rparr>"
  let ?r2 = "\<lparr>exit_code = 1, stdout = ?o1, stderr = []\<rparr>"
  let ?r3 = "\<lparr>exit_code = 0, stdout = ?o3, stderr = []\<rparr>"
  have run: "\<And>r. r = tool_run (run_node r) [] (KvpClient_command (run_node r)) (str_int 3) False"
    by (simp add: run_node_def)
  have ok: "fst (KvpClient_get_pool_records (run_node ?r1) [] 3 False) = Inr [(''a'', ''b'')]"
    by (simp add: KvpClient_get_pool_records_def run_node_def key_value_findall_def lines_of_def
          List.map_filter_simps key_value_match_def get_matched_str_def count_record_findall_def
          count_record_match_here_def is_digit_def int_of_str_def digit_val_def)
  have k3: "key_value_findall ?o3 = [(''a'', ''b''), (''a'', ''c'')]"
    by (simp add: key_value_findall_def lines_of_def List.map_filter_simps key_value_match_def)
  have n3: "int_of_str (get_matched_str ?o3 count_record_findall) = Inr 2"
    by (simp add: get_matched_str_def count_record_findall_def lines_of_def
          List.map_filter_simps count_record_match_here_def is_digit_def int_of_str_def
          digit_val_def)
  from kvp_get_pool_records_guards [OF run [of ?r1]] ok
  have w1: "int_of_str (get_matched_str ?o1 count_record_findall) = Inr 1"
    by simp
  from kvp_get_pool_records_guards [OF run [of ?r2]]
  have w2: "fst (KvpClient_get_pool_records (run_node ?r2) [] 3 False)
              = Inl (AssertionError ''failed to get pool'')"
    by simp
  from kvp_get_pool_records_guards [OF run [of ?r3]] k3 n3
  have w3: "fst (KvpClient_get_pool_records (run_node ?r3) [] 3 False)
              = Inl (AssertionError ''result count is not the same as stats'')"
    by simp
  from ok w1 w2 w3 show ?thesis by blast
qed

section \<open>Properties of \<open>Waagent\<close>\<close>

lemma get_version_first:
  assumes "exit_code (tool_run N (events w) (command w) ''-version'' False) = 0"
  shows "Waagent_get_version N w =
           (Inr (get_matched_str
                   (stdout (tool_run N (events w) (command w) ''-version'' False))
                   version_findall),
            w\<lparr>events := events w @ [ToolRun (command w) ''-version'' False]\<rparr>)"
  using assms by (simp add: Waagent_get_version_def Waagent_run_def)

lemma get_version_second:
  assumes "exit_code (tool_run N (events w) (command w) ''-version'' False) \<noteq> 0"
    and "exit_code (tool_run N (events w @ [ToolRun (command w) ''-version'' False])
                      ''/usr/sbin/waagent'' ''-version'' False) = 0"
  shows "Waagent_get_version N w =
           (Inr (get_matched_str
                   (stdout (tool_run N (events w @ [ToolRun (command w) ''-version'' False])
                              ''/usr/sbin/waagent'' ''-version'' False))
                   version_findall),
            w\<lparr>command := ''/usr/sbin/waagent'',
              events := events w @ [ToolRun (command w) ''-version'' False,
                                    ToolRun ''/usr/sbin/waagent'' ''-version'' False]\<rparr>)"
  using assms by (simp add: Waagent_get_version_def Waagent_run_def)

lemma get_version_third:
  assumes "exit_code (tool_run N (events w) (command w) ''-version'' False) \<noteq> 0"
    and "exit_code (tool_run N (events w @ [ToolRun (command w) ''-version'' False])
                      ''/usr/sbin/waagent'' ''-version'' False) \<noteq> 0"
  shows "Waagent_get_version N w =
           (Inr (get_matched_str
                   (stdout (tool_run N (events w @ [ToolRun (command w) ''-version'' False,
                                          ToolRun ''/usr/sbin/waagent'' ''-version'' False])
                              ''python3 /usr/sbin/waagent'' ''-version'' False))
                   version_findall),
            w\<lparr>command := ''python3 /usr/sbin/waagent'',
              events := events w @ [ToolRun (command w) ''-version'' False,
                                    ToolRun ''/usr/sbin/waagent'' ''-version'' False,
                                    ToolRun ''python3 /usr/sbin/waagent'' ''-version'' False]\<rparr>)"
  using assms by (simp add: Waagent_get_version_def Waagent_run_def)

lemma python_loop_first:
  assumes "k < length cs"
    and "\<forall>j<k. \<not> fst (command_exists N (t @ map CommandExists (take j cs)) (cs ! j))"
    and "command_exists N (t @ map CommandExists (take k cs)) (cs ! k) = (True, s)"
  shows "python_loop N cs bound t = (Some (cs ! k, s), t @ map CommandExists (take (Suc k) cs))"
  using assms
proof (induction cs arbitrary: k t bound)
  case Nil
  then show ?case by simp
next
  case (Cons c cs)
  show ?case
  proof (cases k)
    case 0
    with Cons.prems show ?thesis by simp
  next
    case (Suc k')
    from Cons.prems(2) Suc have miss: "\<not> fst (command_exists N t c)"
      by fastforce
    have lt: "k' < length cs" using Cons.prems(1) Suc by simp
    have before: "\<forall>j<k'. \<not> fst (command_exists N ((t @ [CommandExists c])
                      @ map CommandExists (take j cs)) (cs ! j))"
    proof (intro allI impI)
      fix j assume "j < k'"
      with Cons.prems(2) Suc have "\<not> fst (command_exists N (t @ map CommandExists
                      (take (Suc j) (c # cs))) ((c # cs) ! Suc j))"
        by (metis Suc_less_eq)
      then show "\<not> fst (command_exists N ((t @ [CommandExists c])
                      @ map CommandExists (take j cs)) (cs ! j))"
        by simp
    qed
    have hit: "command_exists N ((t @ [CommandExists c]) @ map CommandExists (take k' cs))
                 (cs ! k') = (True, s)"
      using Cons.prems(3) Suc by simp
    from Cons.IH [OF lt before hit]
    have "python_loop N cs (Some (c, snd (command_exists N t c))) (t @ [CommandExists c])
            = (Some (cs ! k', s), (t @ [CommandExists c]) @ map CommandExists (take (Suc k') cs))" .
    with miss Suc show ?thesis
      by (simp add: case_prod_unfold)
  qed
qed

lemma python_loop_bound:
  "fst (python_loop N cs (Some b) t) \<noteq> None"
  by (induction cs arbitrary: b t) (simp_all add: Let_def case_prod_unfold)

lemma python_loop_some:
  assumes "cs \<noteq> []"
  shows "fst (python_loop N cs bound t) \<noteq> None"
proof (cases cs)
  case Nil
  with assms show ?thesis by simp
next
  case (Cons c rest)
  have "fst (python_loop N rest (Some (c, snd (command_exists N t c))) (t @ [CommandExists c]))
          \<noteq> None"
    by (rule python_loop_bound)
  with Cons show ?thesis
    by (simp add: Let_def case_prod_unfold)
qed

text \<open>The first call of \<open>get_python_cmd\<close> returns a pair and caches it.\<close>

lemma get_python_cmd_caches:
  "\<exists>p s. fst (Waagent_get_python_cmd N w) = Inr (p, s)
         \<and> python_cmd (snd (Waagent_get_python_cmd N w)) = Some p
         \<and> python_use_sudo (snd (Waagent_get_python_cmd N w)) = Some s"
proof (cases "\<exists>p s. python_cmd w = Some p \<and> python_use_sudo w = Some s")
  case True
  then show ?thesis
    by (auto simp: Waagent_get_python_cmd_def)
next
  case False
  obtain r t1 where l: "python_loop N python_candidates None (events w) = (r, t1)"
    by (cases "python_loop N python_candidates None (events w)")
  have "fst (python_loop N python_candidates None (events w)) \<noteq> None"
    by (rule python_loop_some) (simp add: python_candidates_def)
  with l obtain p s where r: "r = Some (p, s)" by auto
  from False l r show ?thesis
    by (auto simp: Waagent_get_python_cmd_def split: option.splits)
qed

lemma get_python_cmd_cached:
  "python_cmd w = Some p \<Longrightarrow> python_use_sudo w = Some s \<Longrightarrow>
     Waagent_get_python_cmd N w = (Inr (p, s), w)"
  by (simp add: Waagent_get_python_cmd_def)

lemma get_python_cmd_fields:
  "command (snd (Waagent_get_python_cmd N w)) = command w
   \<and> distro_version (snd (Waagent_get_python_cmd N w)) = distro_version w
   \<and> waagent_conf_path (snd (Waagent_get_python_cmd N w)) = waagent_conf_path w"
  by (auto simp: Waagent_get_python_cmd_def split: option.splits prod.splits)

lemma get_version_fields:
  "python_cmd (snd (Waagent_get_version N w)) = python_cmd w
   \<and> python_use_sudo (snd (Waagent_get_version N w)) = python_use_sudo w
   \<and> distro_version (snd (Waagent_get_version N w)) = distro_version w
   \<and> waagent_conf_path (snd (Waagent_get_version N w)) = waagent_conf_path w"
  by (simp add: Waagent_get_version_def Waagent_run_def Let_def case_prod_unfold)

lemma get_waagent_conf_path_cached:
  "waagent_conf_path w = Some path \<Longrightarrow> Waagent_get_waagent_conf_path N w = (Inr path, w)"
  by (simp add: Waagent_get_waagent_conf_path_def)

lemma get_distro_version_cached:
  "distro_version w = Some v \<Longrightarrow> Waagent_get_distro_version N w = (Inr v, w)"
  by (simp add: Waagent_get_distro_version_def)

lemma get_waagent_conf_path_caches:
  "\<exists>path. fst (Waagent_get_waagent_conf_path N w) = Inr path
         \<and> waagent_conf_path (snd (Waagent_get_waagent_conf_path N w)) = Some path"
proof (cases "waagent_conf_path w")
  case (Some path)
  then show ?thesis by (simp add: get_waagent_conf_path_cached)
next
  case None
  obtain p s where "fst (Waagent_get_python_cmd N w) = Inr (p, s)"
    using get_python_cmd_caches [of N w] by blast
  then obtain w1 where "Waagent_get_python_cmd N w = (Inr (p, s), w1)"
    by (cases "Waagent_get_python_cmd N w") simp
  with None show ?thesis
    by (simp add: Waagent_get_waagent_conf_path_def Let_def)
qed

lemma get_distro_version_caches:
  "\<exists>v. fst (Waagent_get_distro_version N w) = Inr v
      \<and> distro_version (snd (Waagent_get_distro_version N w)) = Some v"
proof (cases "distro_version w")
  case (Some v)
  then show ?thesis by (simp add: get_distro_version_cached)
next
  case None
  obtain p s where "fst (Waagent_get_python_cmd N w) = Inr (p, s)"
    using get_python_cmd_caches [of N w] by blast
  then obtain w1 where "Waagent_get_python_cmd N w = (Inr (p, s), w1)"
    by (cases "Waagent_get_python_cmd N w") simp
  with None show ?thesis
    by (simp add: Waagent_get_distro_version_def Let_def case_prod_unfold)
qed

lemma get_waagent_conf_path_keeps_distro:
  "distro_version (snd (Waagent_get_waagent_conf_path N w)) = distro_version w"
proof (cases "waagent_conf_path w")
  case (Some path)
  then show ?thesis by (simp add: get_waagent_conf_path_cached)
next
  case None
  obtain r w1 where g: "Waagent_get_python_cmd N w = (r, w1)"
    by (cases "Waagent_get_python_cmd N w")
  with get_python_cmd_fields [of N w] have "distro_version w1 = distro_version w" by simp
  with None g show ?thesis
    by (cases r) (auto simp: Waagent_get_waagent_conf_path_def Let_def)
qed

lemma get_distro_version_keeps_conf_path:
  "waagent_conf_path (snd (Waagent_get_distro_version N w)) = waagent_conf_path w"
proof (cases "distro_version w")
  case (Some v)
  then show ?thesis by (simp add: get_distro_version_cached)
next
  case None
  obtain r w1 where g: "Waagent_get_python_cmd N w = (r, w1)"
    by (cases "Waagent_get_python_cmd N w")
  with get_python_cmd_fields [of N w] have "waagent_conf_path w1 = waagent_conf_path w" by simp
  with None g show ?thesis
    by (cases r) (auto simp: Waagent_get_distro_version_def Let_def case_prod_unfold)
qed

lemma get_waagent_conf_path_keeps_python:
  assumes "python_cmd w = Some p" and "python_use_sudo w = Some s"
  shows "python_cmd (snd (Waagent_get_waagent_conf_path N w)) = Some p
       \<and> python_use_sudo (snd (Waagent_get_waagent_conf_path N w)) = Some s"
  using assms
  by (cases "waagent_conf_path w")
     (simp_all add: Waagent_get_waagent_conf_path_def get_python_cmd_cached Let_def)

lemma get_distro_version_keeps_python:
  assumes "python_cmd w = Some p" and "python_use_sudo w = Some s"
  shows "python_cmd (snd (Waagent_get_distro_version N w)) = Some p
       \<and> python_use_sudo (snd (Waagent_get_distro_version N w)) = Some s"
  using assms
  by (cases "distro_version w")
     (simp_all add: Waagent_get_distro_version_def get_python_cmd_cached Let_def case_prod_unfold)

lemma do_call_keeps_python:
  assumes "python_cmd w = Some p" and "python_use_sudo w = Some s"
  shows "python_cmd (do_call N c w) = Some p \<and> python_use_sudo (do_call N c w) = Some s"
proof (cases c)
  case GetVersion
  with assms show ?thesis by (simp add: get_version_fields)
next
  case GetPythonCmd
  with assms show ?thesis by (simp add: get_python_cmd_cached)
next
  case GetWaagentConfPath
  with get_waagent_conf_path_keeps_python [OF assms] show ?thesis by simp
next
  case GetDistroVersion
  with get_distro_version_keeps_python [OF assms] show ?thesis by simp
qed

lemma do_call_keeps_conf_path:
  assumes "waagent_conf_path w = Some path"
  shows "waagent_conf_path (do_call N c w) = Some path"
proof (cases c)
  case GetVersion
  with assms show ?thesis by (simp add: get_version_fields)
next
  case GetPythonCmd
  with assms show ?thesis by (simp add: get_python_cmd_fields)
next
  case GetWaagentConfPath
  with assms show ?thesis by (simp add: get_waagent_conf_path_cached)
next
  case GetDistroVersion
  with assms show ?thesis by (simp add: get_distro_version_keeps_conf_path)
qed

lemma do_call_keeps_distro:
  assumes "distro_version w = Some v"
  shows "distro_version (do_call N c w) = Some v"
proof (cases c)
  case GetVersion
  with assms show ?thesis by (simp add: get_version_fields)
next
  case GetPythonCmd
  with assms show ?thesis by (simp add: get_python_cmd_fields)
next
  case GetWaagentConfPath
  with assms show ?thesis by (simp add: get_waagent_conf_path_keeps_distro)
next
  case GetDistroVersion
  with assms show ?thesis by (simp add: get_distro_version_cached)
qed

lemma do_calls_keeps_python:
  "python_cmd w = Some p \<Longrightarrow> python_use_sudo w = Some s \<Longrightarrow>
     python_cmd (do_calls N calls w) = Some p \<and> python_use_sudo (do_calls N calls w) = Some s"
  unfolding do_calls_def
  by (induction calls arbitrary: w) (simp_all add: do_call_keeps_python)

lemma do_calls_keeps_conf_path:
  "waagent_conf_path w = Some path \<Longrightarrow> waagent_conf_path (do_calls N calls w) = Some path"
  unfolding do_calls_def
  by (induction calls arbitrary: w) (simp_all add: do_call_keeps_conf_path)

lemma do_calls_keeps_distro:
  "distro_version w = Some v \<Longrightarrow> distro_version (do_calls N calls w) = Some v"
  unfolding do_calls_def
  by (induction calls arbitrary: w) (simp_all add: do_call_keeps_distro)

text \<open>
  C3. Each derived fact is computed at most once: after a first call of
  \<open>get_python_cmd\<close>, \<open>_get_waagent_conf_path\<close> or \<open>get_distro_version\<close>, and then any
  sequence of calls of the four methods, calling it again returns the value of the first
  call and leaves the whole state unchanged, the trace of remote executions included.
\<close>

theorem derived_facts_computed_once:
  "Waagent_get_python_cmd N (do_calls N calls (snd (Waagent_get_python_cmd N w)))
     = (fst (Waagent_get_python_cmd N w), do_calls N calls (snd (Waagent_get_python_cmd N w)))
   \<and> Waagent_get_waagent_conf_path N
        (do_calls N calls (snd (Waagent_get_waagent_conf_path N w)))
     = (fst (Waagent_get_waagent_conf_path N w),
        do_calls N calls (snd (Waagent_get_waagent_conf_path N w)))
   \<and> Waagent_get_distro_version N (do_calls N calls (snd (Waagent_get_distro_version N w)))
     = (fst (Waagent_get_distro_version N w),
        do_calls N calls (snd (Waagent_get_distro_version N w)))"
proof -
  obtain p s where py: "fst (Waagent_get_python_cmd N w) = Inr (p, s)"
      "python_cmd (snd (Waagent_get_python_cmd N w)) = Some p"
      "python_use_sudo (snd (Waagent_get_python_cmd N w)) = Some s"
    using get_python_cmd_caches [of N w] by blast
  have a: "Waagent_get_python_cmd N (do_calls N calls (snd (Waagent_get_python_cmd N w)))
     = (fst (Waagent_get_python_cmd N w), do_calls N calls (snd (Waagent_get_python_cmd N w)))"
    using do_calls_keeps_python [OF py(2) py(3), of N calls]
    by (simp add: get_python_cmd_cached py(1))
  obtain path where cp: "fst (Waagent_get_waagent_conf_path N w) = Inr path"
      "waagent_conf_path (snd (Waagent_get_waagent_conf_path N w)) = Some path"
    using get_waagent_conf_path_caches [of N w] by blast
  have b: "Waagent_get_waagent_conf_path N
        (do_calls N calls (snd (Waagent_get_waagent_conf_path N w)))
     = (fst (Waagent_get_waagent_conf_path N w),
        do_calls N calls (snd (Waagent_get_waagent_conf_path N w)))"
    using do_calls_keeps_conf_path [OF cp(2), of N calls]
    by (simp add: get_waagent_conf_path_cached cp(1))
  obtain v where dv: "fst (Waagent_get_distro_version N w) = Inr v"
      "distro_version (snd (Waagent_get_distro_version N w)) = Some v"
    using get_distro_version_caches [of N w] by blast
  have c: "Waagent_get_distro_version N (do_calls N calls (snd (Waagent_get_distro_version N w)))
     = (fst (Waagent_get_distro_version N w),
        do_calls N calls (snd (Waagent_get_distro_version N w)))"
    using do_calls_keeps_distro [OF dv(2), of N calls]
    by (simp add: get_distro_version_cached dv(1))
  from a b c show ?thesis by simp
qed

text \<open>
  C2, amended. \<open>get_version\<close> tries the current command of the tool first (after
  \<open>_initialize\<close> that is \<open>waagent\<close>, on CoreOS the OEM path; later it is the form an
  earlier call left), then \<open>/usr/sbin/waagent\<close>, then \<open>python3 /usr/sbin/waagent\<close>,
  in that order; it runs no candidate after one that exits with 0, and leaves the
  succeeding candidate in \<open>command\<close>. \<open>get_python_cmd\<close>, with nothing cached, probes
  the interpreter candidates in order, stops at the first that exists, returns it and
  stores it with its sudo flag.
\<close>

theorem probe_chain_short_circuits:
  assumes "r1 = tool_run N (events w) (command w) ''-version'' False"
    and "r2 = tool_run N (events w @ [ToolRun (command w) ''-version'' False])
                ''/usr/sbin/waagent'' ''-version'' False"
    and "r3 = tool_run N (events w @ [ToolRun (command w) ''-version'' False,
                                       ToolRun ''/usr/sbin/waagent'' ''-version'' False])
                ''python3 /usr/sbin/waagent'' ''-version'' False"
    and "python_cmd u = None \<or> python_use_sudo u = None"
    and "k < length python_candidates"
    and "\<forall>j<k. \<not> fst (command_exists N
                        (events u @ map CommandExists (take j python_candidates))
                        (python_candidates ! j))"
    and "command_exists N (events u @ map CommandExists (take k python_candidates))
           (python_candidates ! k) = (True, s)"
  shows "command (Waagent_initialize N t0) =
           (if os N = CoreOs
            then ''/usr/share/oem/python/bin/python /usr/share/oem/bin/waagent''
            else ''waagent'')
       \<and> (exit_code r1 = 0 \<longrightarrow>
            Waagent_get_version N w =
              (Inr (get_matched_str (stdout r1) version_findall),
               w\<lparr>events := events w @ [ToolRun (command w) ''-version'' False]\<rparr>))
       \<and> (exit_code r1 \<noteq> 0 \<and> exit_code r2 = 0 \<longrightarrow>
            Waagent_get_version N w =
              (Inr (get_matched_str (stdout r2) version_findall),
               w\<lparr>command := ''/usr/sbin/waagent'',
                 events := events w @ [ToolRun (command w) ''-version'' False,
                                       ToolRun ''/usr/sbin/waagent'' ''-version'' False]\<rparr>))
       \<and> (exit_code r1 \<noteq> 0 \<and> exit_code r2 \<noteq> 0 \<and> exit_code r3 = 0 \<longrightarrow>
            Waagent_get_version N w =
              (Inr (get_matched_str (stdout r3) version_findall),
               w\<lparr>command := ''python3 /usr/sbin/waagent'',
                 events := events w @ [ToolRun (command w) ''-version'' False,
                                       ToolRun ''/usr/sbin/waagent'' ''-version'' False,
                                       ToolRun ''python3 /usr/sbin/waagent'' ''-version'' False]\<rparr>))
       \<and> Waagent_get_python_cmd N u =
           (Inr (python_candidates ! k, s),
            u\<lparr>python_cmd := Some (python_candidates ! k), python_use_sudo := Some s,
              events := events u @ map CommandExists (take (Suc k) python_candidates)\<rparr>)"
proof -
  have i: "command (Waagent_initialize N t0) =
           (if os N = CoreOs
            then ''/usr/share/oem/python/bin/python /usr/share/oem/bin/waagent''
            else ''waagent'')"
    by (simp add: Waagent_initialize_def)
  have a: "exit_code r1 = 0 \<longrightarrow>
            Waagent_get_version N w =
              (Inr (get_matched_str (stdout r1) version_findall),
               w\<lparr>events := events w @ [ToolRun (command w) ''-version'' False]\<rparr>)"
    using get_version_first [of N w] by (simp add: assms(1))
  have b: "exit_code r1 \<noteq> 0 \<and> exit_code r2 = 0 \<longrightarrow>
            Waagent_get_version N w =
              (Inr (get_matched_str (stdout r2) version_findall),
               w\<lparr>command := ''/usr/sbin/waagent'',
                 events := events w @ [ToolRun (command w) ''-version'' False,
                                       ToolRun ''/usr/sbin/waagent'' ''-version'' False]\<rparr>)"
    using get_version_second [of N w] by (simp add: assms(1) assms(2))
  have c: "exit_code r1 \<noteq> 0 \<and> exit_code r2 \<noteq> 0 \<and> exit_code r3 = 0 \<longrightarrow>
            Waagent_get_version N w =
              (Inr (get_matched_str (stdout r3) version_findall),
               w\<lparr>command := ''python3 /usr/sbin/waagent'',
                 events := events w @ [ToolRun (command w) ''-version'' False,
                                       ToolRun ''/usr/sbin/waagent'' ''-version'' False,
                                       ToolRun ''python3 /usr/sbin/waagent'' ''-version'' False]\<rparr>)"
    using get_version_third [of N w] by (simp add: assms(1) assms(2) assms(3))
  have l: "python_loop N python_candidates None (events u)
             = (Some (python_candidates ! k, s),
                events u @ map CommandExists (take (Suc k) python_candidates))"
    by (rule python_loop_first [OF assms(5) assms(6) assms(7)])
  have d: "Waagent_get_python_cmd N u =
           (Inr (python_candidates ! k, s),
            u\<lparr>python_cmd := Some (python_candidates ! k), python_use_sudo := Some s,
              events := events u @ map CommandExists (take (Suc k) python_candidates)\<rparr>)"
    using assms(4) by (auto simp: Waagent_get_python_cmd_def l split: option.splits)
  from i a b c d show ?thesis by blast
qed

theorem probe_chain_short_circuits_witness:
  "Waagent_get_version fallback_node (Waagent_initialize fallback_node [])
     = (Inr ''2.2.45'',
        (Waagent_initialize fallback_node [])
          \<lparr>command := ''/usr/sbin/waagent'',
            events := [ToolRun ''waagent'' ''-version'' False,
                       ToolRun ''/usr/sbin/waagent'' ''-version'' False]\<rparr>)
   \<and> Waagent_get_python_cmd fallback_node (Waagent_initialize fallback_node [])
     = (Inr (''python2'', True),
        (Waagent_initialize fallback_node [])
          \<lparr>python_cmd := Some ''python2'', python_use_sudo := Some True,
            events := [CommandExists ''python3'', CommandExists ''python2'']\<rparr>)"
proof -
  let ?w = "Waagent_initialize fallback_node []"
  have h1: "command ?w = ''waagent''"
    by (simp add: Waagent_initialize_def fallback_node_def)
  have h5: "python_cmd ?w = None \<or> python_use_sudo ?w = None"
    by (simp add: Waagent_initialize_def)
  have h6: "(1::nat) < length python_candidates"
    by (simp add: python_candidates_def)
  have h7: "\<forall>j<(1::nat). \<not> fst (command_exists fallback_node
                        (events ?w @ map CommandExists (take j python_candidates))
                        (python_candidates ! j))"
    by (simp add: fallback_node_def python_candidates_def)
  have h8: "command_exists fallback_node
              (events ?w @ map CommandExists (take 1 python_candidates))
              (python_candidates ! 1) = (True, True)"
    by (simp add: fallback_node_def python_candidates_def)
  have e1: "exit_code (tool_run fallback_node [] ''waagent'' ''-version'' False) \<noteq> 0"
    and e2: "exit_code (tool_run fallback_node [ToolRun ''waagent'' ''-version'' False]
                          ''/usr/sbin/waagent'' ''-version'' False) = 0"
    by (simp_all add: fallback_node_def)
  have v: "get_matched_str
             (stdout (tool_run fallback_node [ToolRun ''waagent'' ''-version'' False]
                        ''/usr/sbin/waagent'' ''-version'' False))
             version_findall = ''2.2.45''"
    by (simp add: fallback_node_def get_matched_str_def version_findall_def is_space_def)
  have ev: "events ?w = []"
    by (simp add: Waagent_initialize_def)
  have pc: "python_candidates ! 1 = ''python2''"
      "map CommandExists (take (Suc 1) python_candidates)
         = [CommandExists ''python3'', CommandExists ''python2'']"
    by (simp_all add: python_candidates_def)
  from probe_chain_short_circuits [where w = ?w, OF refl refl refl h5 h6 h7 h8] e1 e2 v ev pc h1
  show ?thesis
    by simp
qed

text \<open>
  C2, as stated, fails on CoreOS: \<open>_initialize\<close> sets the command to the OEM path, so
  the first candidate is not \<open>waagent\<close>, which is never run.
\<close>

theorem probe_chain_first_candidate_coreos:
  "Waagent_get_version coreos_node (Waagent_initialize coreos_node [])
     = (Inr ''2.2.45'',
        (Waagent_initialize coreos_node [])
          \<lparr>events := [ToolRun ''/usr/share/oem/python/bin/python /usr/share/oem/bin/waagent''
                        ''-version'' False]\<rparr>)
   \<and> ToolRun ''waagent'' ''-version'' False
       \<notin> set (events (snd (Waagent_get_version coreos_node (Waagent_initialize coreos_node []))))"
proof -
  have "Waagent_get_version coreos_node (Waagent_initialize coreos_node [])
     = (Inr ''2.2.45'',
        (Waagent_initialize coreos_node [])
          \<lparr>events := [ToolRun ''/usr/share/oem/python/bin/python /usr/share/oem/bin/waagent''
                        ''-version'' False]\<rparr>)"
    by (simp add: Waagent_get_version_def Waagent_run_def Waagent_initialize_def coreos_node_def
          file_node_def get_matched_str_def version_findall_def is_space_def)
  then show ?thesis by simp
qed

text \<open>
  C7, amended. When all three candidates of \<open>get_version\<close> exit with a code other than
  0, the call does not fail: it returns what the version pattern finds in the standard
  output of the last candidate (the empty string when it finds nothing) and leaves
  \<open>python3 /usr/sbin/waagent\<close> as the command. The exit code and the standard error of
  the last candidate are not part of the result.
\<close>

theorem all_candidates_fail_returns_match:
  assumes "r1 = tool_run N (events w) (command w) ''-version'' False"
    and "r2 = tool_run N (events w @ [ToolRun (command w) ''-version'' False])
                ''/usr/sbin/waagent'' ''-version'' False"
    and "r3 = tool_run N (events w @ [ToolRun (command w) ''-version'' False,
                                       ToolRun ''/usr/sbin/waagent'' ''-version'' False])
                ''python3 /usr/sbin/waagent'' ''-version'' False"
    and "exit_code r1 \<noteq> 0" and "exit_code r2 \<noteq> 0" and "exit_code r3 \<noteq> 0"
  shows "Waagent_get_version N w =
           (Inr (get_matched_str (stdout r3) version_findall),
            w\<lparr>command := ''python3 /usr/sbin/waagent'',
              events := events w @ [ToolRun (command w) ''-version'' False,
                                    ToolRun ''/usr/sbin/waagent'' ''-version'' False,
                                    ToolRun ''python3 /usr/sbin/waagent'' ''-version'' False]\<rparr>)"
  using get_version_third [of N w] assms by simp

theorem all_candidates_fail_returns_match_witness:
  "exit_code (tool_run failing_node [ToolRun ''waagent'' ''-version'' False,
                                     ToolRun ''/usr/sbin/waagent'' ''-version'' False]
                ''python3 /usr/sbin/waagent'' ''-version'' False) \<noteq> 0
   \<and> Waagent_get_version failing_node (Waagent_initialize failing_node [])
     = (Inr [],
        (Waagent_initialize failing_node [])
          \<lparr>command := ''python3 /usr/sbin/waagent'',
            events := [ToolRun ''waagent'' ''-version'' False,
                       ToolRun ''/usr/sbin/waagent'' ''-version'' False,
                       ToolRun ''python3 /usr/sbin/waagent'' ''-version'' False]\<rparr>)"
proof -
  let ?w = "Waagent_initialize failing_node []"
  have c: "command ?w = ''waagent''" and e: "events ?w = []"
    by (simp_all add: Waagent_initialize_def failing_node_def)
  have f: "\<And>t c. exit_code (tool_run failing_node t c ''-version'' False) \<noteq> 0"
    by (simp add: failing_node_def)
  have o: "\<And>t c. get_matched_str (stdout (tool_run failing_node t c ''-version'' False))
                    version_findall = []"
    by (simp add: failing_node_def get_matched_str_def)
  from all_candidates_fail_returns_match [where N = failing_node and w = ?w, OF refl refl refl f f f]
    c e o f
  show ?thesis by simp
qed

text \<open>
  C7, as stated, fails: on a node where every command exits with 127, \<open>get_version\<close>
  returns the empty string as an ordinary result.
\<close>

theorem all_candidates_fail_is_not_a_failure:
  "exit_code (tool_run failing_node [] ''waagent'' ''-version'' False) \<noteq> 0
   \<and> exit_code (tool_run failing_node [ToolRun ''waagent'' ''-version'' False]
                  ''/usr/sbin/waagent'' ''-version'' False) \<noteq> 0
   \<and> exit_code (tool_run failing_node [ToolRun ''waagent'' ''-version'' False,
                                       ToolRun ''/usr/sbin/waagent'' ''-version'' False]
                  ''python3 /usr/sbin/waagent'' ''-version'' False) \<noteq> 0
   \<and> fst (Waagent_get_version failing_node (Waagent_initialize failing_node [])) = Inr []"
  by (simp add: Waagent_get_version_def Waagent_run_def Waagent_initialize_def failing_node_def
        file_node_def get_matched_str_def)

text \<open>
  C6, amended. \<open>get_distro_version\<close> never raises. With nothing cached it runs the
  modern query (\<open>azurelinuxagent ... get_distro\<close>) and returns its output if it exits
  with 0; otherwise it runs the legacy query (\<open>platform.linux_distribution\<close>) and
  returns its normalised output if that exits with 0; otherwise it returns the sentinel
  \<open>Unknown\<close>, with a capital U.
\<close>

theorem distro_version_degrades:
  assumes "distro_version w = None"
    and "Waagent_get_python_cmd N w = (Inr (python, use_sudo), w1)"
    and "modern = execute N (events w1) (distro_query python) use_sudo"
    and "legacy = execute N (events w1 @ [NodeExecute (distro_query python) use_sudo])
                    (legacy_distro_query python) use_sudo"
  shows "fst (Waagent_get_distro_version N w) =
           Inr (if exit_code modern = 0 then stdout modern
                else if exit_code legacy = 0
                     then lower (strip_chars (strip_chars (stdout legacy) [DQ]) '' '')
                     else ''Unknown'')
       \<and> events (snd (Waagent_get_distro_version N w)) =
           events w1 @
             (if exit_code modern = 0 then [NodeExecute (distro_query python) use_sudo]
              else [NodeExecute (distro_query python) use_sudo,
                    NodeExecute (legacy_distro_query python) use_sudo])
       \<and> (\<forall>u. \<exists>v. fst (Waagent_get_distro_version N u) = Inr v)"
proof -
  have a: "fst (Waagent_get_distro_version N w) =
           Inr (if exit_code modern = 0 then stdout modern
                else if exit_code legacy = 0
                     then lower (strip_chars (strip_chars (stdout legacy) [DQ]) '' '')
                     else ''Unknown'')"
    by (simp add: Waagent_get_distro_version_def assms Let_def)
  have b: "events (snd (Waagent_get_distro_version N w)) =
           events w1 @
             (if exit_code modern = 0 then [NodeExecute (distro_query python) use_sudo]
              else [NodeExecute (distro_query python) use_sudo,
                    NodeExecute (legacy_distro_query python) use_sudo])"
    by (simp add: Waagent_get_distro_version_def assms Let_def)
  have c: "\<forall>u. \<exists>v. fst (Waagent_get_distro_version N u) = Inr v"
    using get_distro_version_caches [of N] by blast
  from a b c show ?thesis by blast
qed

theorem distro_version_degrades_witness:
  "fst (Waagent_get_distro_version fallback_node (Waagent_initialize fallback_node []))
     = Inr ''ubuntu-18.04-bionic''
   \<and> events (snd (Waagent_get_distro_version fallback_node (Waagent_initialize fallback_node [])))
     = [CommandExists ''python3'', CommandExists ''python2'',
        NodeExecute (distro_query ''python2'') True,
        NodeExecute (legacy_distro_query ''python2'') True]"
proof -
  let ?w = "Waagent_initialize fallback_node []"
  let ?w1 = "?w\<lparr>python_cmd := Some ''python2'', python_use_sudo := Some True,
               events := [CommandExists ''python3'', CommandExists ''python2'']\<rparr>"
  let ?modern = "execute fallback_node (events ?w1) (distro_query ''python2'') True"
  let ?legacy = "execute fallback_node (events ?w1 @ [NodeExecute (distro_query ''python2'') True])
                   (legacy_distro_query ''python2'') True"
  have h1: "distro_version ?w = None"
    by (simp add: Waagent_initialize_def)
  have h2: "Waagent_get_python_cmd fallback_node ?w = (Inr (''python2'', True), ?w1)"
    by (simp add: Waagent_get_python_cmd_def Waagent_initialize_def python_candidates_def
          fallback_node_def)
  have m: "exit_code ?modern \<noteq> 0" and l: "exit_code ?legacy = 0"
    by (simp_all add: fallback_node_def)
  have n: "lower (strip_chars (strip_chars (stdout ?legacy) [DQ]) '' '') = ''ubuntu-18.04-bionic''"
    by (simp add: fallback_node_def strip_chars_def lower_def lower_char_def char_of_def bit_Suc_0_iff)
  have e: "events ?w1 = [CommandExists ''python3'', CommandExists ''python2'']"
    by simp
  from distro_version_degrades [OF h1 h2 refl refl] m l n e
  show ?thesis by simp
qed

text \<open>
  C6, as stated, fails on the literal: when both queries fail the value returned is
  \<open>Unknown\<close>, not \<open>unknown\<close>.
\<close>

theorem distro_version_sentinel_is_capitalised:
  "exit_code (execute failing_node [CommandExists ''python3'', CommandExists ''python2'',
        CommandExists ''/usr/libexec/platform-python'',
        CommandExists ''/usr/share/oem/python/bin/python3'']
        (distro_query ''/usr/share/oem/python/bin/python3'') False) \<noteq> 0
   \<and> fst (Waagent_get_distro_version failing_node (Waagent_initialize failing_node []))
       = Inr ''Unknown''
   \<and> fst (Waagent_get_distro_version failing_node (Waagent_initialize failing_node []))
       \<noteq> Inr ''unknown''"
proof -
  have "fst (Waagent_get_distro_version failing_node (Waagent_initialize failing_node []))
       = Inr ''Unknown''"
    by (simp add: Waagent_get_distro_version_def Waagent_get_python_cmd_def
          Waagent_initialize_def python_candidates_def failing_node_def file_node_def)
  then show ?thesis
    by (simp add: failing_node_def)
qed

section \<open>Properties of \<open>LisDriver\<close> and of the installation of \<open>KvpClient\<close>\<close>

text \<open>
  C4. \<open>LisDriver.can_install\<close> on a node whose version is 7.8.0 or above raises
  \<open>UnsupportedDistroException\<close>; it returns \<open>True\<close> exactly when the operating system
  is Redhat with a version strictly below 7.8.0, never returns \<open>False\<close>, and executes
  nothing on the node.
\<close>

theorem lis_driver_version_gate:
  "(\<not> version_less (os_version N) (7, 8, 0) \<longrightarrow>
      LisDriver_can_install N t =
        (Inl (UnsupportedDistroException
                (''lis driver can'' @ [SQ] @ ''t be installed on this distro'')), t))
   \<and> (fst (LisDriver_can_install N t) = Inr True
        \<longleftrightarrow> os N = Redhat \<and> version_less (os_version N) (7, 8, 0))
   \<and> fst (LisDriver_can_install N t) \<noteq> Inr False
   \<and> snd (LisDriver_can_install N t) = t"
  by (simp add: LisDriver_can_install_def)

theorem lis_driver_version_gate_witness:
  "\<not> version_less (os_version (versioned_node Redhat (8, 2, 0))) (7, 8, 0)
   \<and> LisDriver_can_install (versioned_node Redhat (8, 2, 0)) [] =
        (Inl (UnsupportedDistroException
                (''lis driver can'' @ [SQ] @ ''t be installed on this distro'')), [])
   \<and> \<not> version_less (os_version (versioned_node Redhat (7, 8, 0))) (7, 8, 0)
   \<and> LisDriver_can_install (versioned_node Redhat (7, 8, 0)) [] =
        (Inl (UnsupportedDistroException
                (''lis driver can'' @ [SQ] @ ''t be installed on this distro'')), [])
   \<and> version_less (os_version (versioned_node Redhat (7, 6, 0))) (7, 8, 0)
   \<and> fst (LisDriver_can_install (versioned_node Redhat (7, 6, 0)) []) = Inr True"
proof -
  have a: "\<not> version_less (os_version (versioned_node Redhat (8, 2, 0))) (7, 8, 0)"
    by (simp add: versioned_node_def file_node_def version_less_def)
  have b: "\<not> version_less (os_version (versioned_node Redhat (7, 8, 0))) (7, 8, 0)"
    by (simp add: versioned_node_def file_node_def version_less_def)
  have c: "os (versioned_node Redhat (7, 6, 0)) = Redhat
           \<and> version_less (os_version (versioned_node Redhat (7, 6, 0))) (7, 8, 0)"
    by (simp add: versioned_node_def file_node_def version_less_def)
  from lis_driver_version_gate [of "versioned_node Redhat (8, 2, 0)" "[]"]
       lis_driver_version_gate [of "versioned_node Redhat (7, 8, 0)" "[]"]
       lis_driver_version_gate [of "versioned_node Redhat (7, 6, 0)" "[]"] a b c
  show ?thesis by blast
qed





end
